theory Spec2Isabelle
  imports Main
begin

section \<open>The odrpack driver: argument marshalling around the ODRPACK95 solver\<close>

text \<open>
  The development follows \<^verbatim>\<open>src/odrpack/driver.py\<close>. The function \<^verbatim>\<open>odr\<close> of the
  driver decodes the job code, infers the problem dimensions from the shapes of its
  array arguments, validates every optional argument, sizes the two work arrays, calls
  the compiled solver and assembles the result. Every \<^verbatim>\<open>raise\<close> of the driver is a
  value \<open>Inl e\<close> of the model.
\<close>

subsection \<open>Arrays\<close>

text \<open>
  A numpy array is its shape (a tuple of axis lengths) and its elements in row-major
  order. The element type is left open: the driver only copies, compares and adds
  elements, so the model asks for nothing but the operations \<open>0\<close>, \<open>+\<close>, \<open>\<le>\<close> on it
  (no law is assumed of them, as none holds of IEEE numbers once NaN is a value).
  Arrays of \<^verbatim>\<open>int32\<close> are arrays of \<open>int\<close>: the driver never computes on their elements.
\<close>

record 'a ndarray =
  shape :: "nat list"
  data :: "'a list"

definition ndim :: "'a ndarray \<Rightarrow> nat" where
  "ndim a = length (shape a)"

definition asize :: "'a ndarray \<Rightarrow> nat" where
  \<comment> \<open>numpy's \<^verbatim>\<open>a.size\<close>: the product of the axis lengths\<close>
  "asize a = prod_list (shape a)"

definition np_zeros :: "nat list \<Rightarrow> ('a::zero) ndarray" where
  "np_zeros shp = \<lparr>shape = shp, data = replicate (prod_list shp) 0\<rparr>"

definition zeros_like :: "'a ndarray \<Rightarrow> ('a::zero) ndarray" where
  "zeros_like a = np_zeros (shape a)"

definition np_full :: "nat list \<Rightarrow> 'a \<Rightarrow> 'a ndarray" where
  "np_full shp c = \<lparr>shape = shp, data = replicate (prod_list shp) c\<rparr>"

definition np_tile :: "'a ndarray \<Rightarrow> nat \<Rightarrow> 'a ndarray" where
  \<comment> \<open>\<^verbatim>\<open>np.tile(a, (m, 1))\<close> for a rank-1 array \<open>a\<close>, the only rank the driver tiles:
      \<open>m\<close> rows, each a copy of \<open>a\<close>\<close>
  "np_tile a m = \<lparr>shape = m # shape a, data = concat (replicate m (data a))\<rparr>"

definition np_add :: "('a::plus) ndarray \<Rightarrow> 'a ndarray \<Rightarrow> 'a ndarray" where
  \<comment> \<open>\<^verbatim>\<open>a + b\<close> for two arrays of one shape (the driver adds no others)\<close>
  "np_add a b = \<lparr>shape = shape a, data = map2 (+) (data a) (data b)\<rparr>"

definition any_ge :: "('a::ord) ndarray \<Rightarrow> 'a ndarray \<Rightarrow> bool" where
  \<comment> \<open>\<^verbatim>\<open>np.any(a >= b)\<close> for two arrays of one shape\<close>
  "any_ge a b = list_ex (\<lambda>(u, v). u \<ge> v) (zip (data a) (data b))"

definition any_le :: "('a::ord) ndarray \<Rightarrow> 'a ndarray \<Rightarrow> bool" where
  \<comment> \<open>\<^verbatim>\<open>np.any(a <= b)\<close> for two arrays of one shape\<close>
  "any_le a b = list_ex (\<lambda>(u, v). u \<le> v) (zip (data a) (data b))"

subsection \<open>Errors\<close>

text \<open>
  One constructor for each \<^verbatim>\<open>raise\<close> of the driver, in the order of the source, then
  the exceptions that indexing, a dictionary and \<^verbatim>\<open>np.reshape\<close> raise by themselves.
\<close>

datatype error =
    XRank | YRank | LastDimension | Beta0Rank
  | LowerShape | LowerNotLess | UpperShape | UpperNotGreater
  | IfixbShape | StpbShape | SclbShape
  | Delta0Shape | Delta0Job
  | IfixxShape | StpdShape | ScldShape
  | WeShape | WeType | WdShape | WdType
  | FShape | FjacbShape | FjacbJob | FjacdShape | FjacdJob
  | WorkLength | IworkLength | WorkJob
  | IndexError | KeyError | ReshapeError

datatype error_kind =
    ShapeMismatch | InvalidBounds | InconsistentJobArgument | RestartSizeMismatch
  | TypeError | LookupError

fun kind_of :: "error \<Rightarrow> error_kind" where
  \<comment> \<open>the class of each error in the taxonomy of the specification\<close>
  "kind_of LowerNotLess = InvalidBounds"
| "kind_of UpperNotGreater = InvalidBounds"
| "kind_of Delta0Job = InconsistentJobArgument"
| "kind_of FjacbJob = InconsistentJobArgument"
| "kind_of FjacdJob = InconsistentJobArgument"
| "kind_of WorkJob = InconsistentJobArgument"
| "kind_of WorkLength = RestartSizeMismatch"
| "kind_of IworkLength = RestartSizeMismatch"
| "kind_of WeType = TypeError"
| "kind_of WdType = TypeError"
| "kind_of IndexError = LookupError"
| "kind_of KeyError = LookupError"
| "kind_of _ = ShapeMismatch"

definition dim_error :: "error \<Rightarrow> bool" where
  \<comment> \<open>the four errors of the checks that infer the dimensions\<close>
  "dim_error e \<longleftrightarrow> e \<in> {XRank, YRank, LastDimension, Beta0Rank}"

definition ebind :: "error + 'a \<Rightarrow> ('a \<Rightarrow> error + 'b) \<Rightarrow> error + 'b" where
  \<comment> \<open>sequencing: the first error raised ends the call\<close>
  "ebind r k = (case r of Inl e \<Rightarrow> Inl e | Inr v \<Rightarrow> k v)"

subsection \<open>The job code\<close>

definition get_digit :: "int \<Rightarrow> nat \<Rightarrow> int" where
  \<comment> \<open>\<^verbatim>\<open>(number // 10**(ndigit-1)) % 10\<close>; the driver calls it with
      \<open>ndigit\<close> 1, 2, 4 and 5. Python's \<^verbatim>\<open>//\<close> and \<^verbatim>\<open>%\<close> round to the floor, as
      \<open>div\<close> and \<open>mod\<close> on \<open>int\<close> do.\<close>
  "get_digit number ndigit = (number div 10 ^ (ndigit - 1)) mod 10"

record job_flags =
  is_odr :: bool
  has_jac :: bool
  has_delta0 :: bool
  is_restart :: bool

definition interpret_job :: "int \<Rightarrow> job_flags" where
  "interpret_job job =
     \<lparr>is_odr = get_digit job 1 < 2,
      has_jac = get_digit job 2 > 1,
      has_delta0 = get_digit job 4 > 0,
      is_restart = get_digit job 5 > 0\<rparr>"

definition spec_digit :: "nat \<Rightarrow> nat \<Rightarrow> nat" where
  \<comment> \<open>the specification's \<open>digit(code, k) = (code / 10^(k-1)) mod 10\<close>,
      on the non-negative codes it speaks of\<close>
  "spec_digit code k = (code div 10 ^ (k - 1)) mod 10"

subsection \<open>Arguments, solver interface and result\<close>

text \<open>
  The second argument of \<^verbatim>\<open>isinstance\<close> in the weight checks separates a Python
  number, an array and anything else.
\<close>

datatype 'a weight = WScalar 'a | WArray "'a ndarray" | WOther

type_synonym 'a model_fn = "'a ndarray \<Rightarrow> 'a ndarray \<Rightarrow> 'a ndarray"

record 'a odr_args =
  arg_f :: "'a model_fn"
  arg_beta0 :: "'a ndarray"
  arg_y :: "'a ndarray"
  arg_x :: "'a ndarray"
  arg_we :: "'a weight option"
  arg_wd :: "'a weight option"
  arg_fjacb :: "'a model_fn option"
  arg_fjacd :: "'a model_fn option"
  arg_ifixb :: "int ndarray option"
  arg_ifixx :: "int ndarray option"
  arg_delta0 :: "'a ndarray option"
  arg_lower :: "'a ndarray option"
  arg_upper :: "'a ndarray option"
  arg_job :: int
  arg_iprint :: "int option"
  arg_rptfile :: "string option"
  arg_errfile :: "string option"
  arg_ndigit :: "int option"
  arg_taufac :: "'a option"
  arg_sstol :: "'a option"
  arg_partol :: "'a option"
  arg_maxit :: "int option"
  arg_stpb :: "'a ndarray option"
  arg_stpd :: "'a ndarray option"
  arg_sclb :: "'a ndarray option"
  arg_scld :: "'a ndarray option"
  arg_work :: "'a ndarray option"
  arg_iwork :: "int ndarray option"

text \<open>The keyword arguments of the call of the compiled solver \<^verbatim>\<open>_odr\<close>.\<close>

record 'a solver_in =
  s_n :: nat
  s_m :: nat
  s_npar :: nat
  s_nq :: nat
  s_ldwe :: nat
  s_ld2we :: nat
  s_ldwd :: nat
  s_ld2wd :: nat
  s_ldifx :: nat
  s_ldstpd :: nat
  s_ldscld :: nat
  s_f :: "'a model_fn"
  s_fjacb :: "'a model_fn"
  s_fjacd :: "'a model_fn"
  s_beta :: "'a ndarray"
  s_y :: "'a ndarray"
  s_x :: "'a ndarray"
  s_delta :: "'a ndarray"
  s_we :: "'a ndarray option"
  s_wd :: "'a ndarray option"
  s_ifixb :: "int ndarray option"
  s_ifixx :: "int ndarray option"
  s_lower :: "'a ndarray option"
  s_upper :: "'a ndarray option"
  s_work :: "'a ndarray"
  s_iwork :: "int ndarray"
  s_job :: int
  s_ndigit :: "int option"
  s_taufac :: "'a option"
  s_sstol :: "'a option"
  s_partol :: "'a option"
  s_maxit :: "int option"
  s_iprint :: "int option"
  s_errfile :: "string option"
  s_rptfile :: "string option"

text \<open>
  The solver writes \<^verbatim>\<open>beta\<close>, \<^verbatim>\<open>delta\<close>, \<^verbatim>\<open>work\<close> and \<^verbatim>\<open>iwork\<close> in place and
  returns its status code: what it leaves is the status and the new elements of the
  four arrays (writing in place keeps an array's shape).
\<close>

record 'a solver_out =
  o_info :: int
  o_beta :: "'a list"
  o_delta :: "'a list"
  o_work :: "'a list"
  o_iwork :: "int list"

text \<open>
  The compiled module \<^verbatim>\<open>odrpack.__odrpack\<close> is not part of the driver: its four
  functions are parameters of the model, and so is the NaN of the element type that
  the placeholder Jacobian returns.
\<close>

record 'a odrpack_ext =
  workspace_dimensions :: "nat \<Rightarrow> nat \<Rightarrow> nat \<Rightarrow> nat \<Rightarrow> bool \<Rightarrow> nat \<times> nat"
  dwinf :: "nat \<Rightarrow> nat \<Rightarrow> nat \<Rightarrow> nat \<Rightarrow> nat \<Rightarrow> nat \<Rightarrow> bool \<Rightarrow> (string \<rightharpoonup> nat)"
  diwinf :: "nat \<Rightarrow> nat \<Rightarrow> nat \<Rightarrow> (string \<rightharpoonup> nat)"
  odr_solver :: "'a solver_in \<Rightarrow> 'a solver_out"
  nan :: 'a

text \<open>The fields of \<^verbatim>\<open>OdrResult\<close>, as the driver fills them.\<close>

record 'a odr_result =
  r_beta :: "'a ndarray"
  r_delta :: "'a ndarray"
  r_eps :: "'a ndarray"
  r_xplus :: "'a ndarray"
  r_yest :: "'a ndarray"
  r_sd_beta :: "'a ndarray"
  r_cov_beta :: "'a ndarray"
  r_res_var :: "'a ndarray"
  r_info :: int
  r_stopreason :: string
  r_success :: bool
  r_nfev :: "int ndarray"
  r_njev :: "int ndarray"
  r_niter :: "int ndarray"
  r_irank :: "int ndarray"
  r_inv_condnum :: "'a ndarray"
  r_sum_square :: "'a ndarray"
  r_sum_square_delta :: "'a ndarray"
  r_sum_square_eps :: "'a ndarray"
  r_iwork :: "int ndarray"
  r_work :: "'a ndarray"

subsection \<open>Indexing, slicing and reshaping\<close>

definition slice0 :: "'a ndarray \<Rightarrow> nat \<Rightarrow> nat \<Rightarrow> error + 'a ndarray" where
  \<comment> \<open>\<^verbatim>\<open>a[i:j]\<close> for \<open>0 \<le> i \<le> j\<close>: a slice of the first axis, both ends clipped
      to its length; a rank-0 array cannot be sliced\<close>
  "slice0 a i j =
     (case shape a of
        [] \<Rightarrow> Inl IndexError
      | d # rest \<Rightarrow>
          let lo = min i d; hi = min j d in
          Inr \<lparr>shape = (hi - lo) # rest,
               data = take ((hi - lo) * prod_list rest) (drop (lo * prod_list rest) (data a))\<rparr>)"

definition item0 :: "'a ndarray \<Rightarrow> nat \<Rightarrow> error + 'a ndarray" where
  \<comment> \<open>\<^verbatim>\<open>a[k]\<close> for \<open>0 \<le> k\<close>: the \<open>k\<close>-th entry of the first axis (an array of rank 0
      stands for a numpy scalar)\<close>
  "item0 a k =
     (case shape a of
        [] \<Rightarrow> Inl IndexError
      | d # rest \<Rightarrow>
          if k < d
          then Inr \<lparr>shape = rest,
                    data = take (prod_list rest) (drop (k * prod_list rest) (data a))\<rparr>
          else Inl IndexError)"

definition np_reshape :: "'a ndarray \<Rightarrow> nat list \<Rightarrow> error + 'a ndarray" where
  "np_reshape a shp =
     (if asize a = prod_list shp then Inr \<lparr>shape = shp, data = data a\<rparr>
      else Inl ReshapeError)"

definition lookup :: "(string \<rightharpoonup> nat) \<Rightarrow> string \<Rightarrow> error + nat" where
  \<comment> \<open>\<^verbatim>\<open>d[key]\<close> on a dictionary\<close>
  "lookup d key = (case d key of None \<Rightarrow> Inl KeyError | Some v \<Rightarrow> Inr v)"

subsection \<open>The checks of the driver, in the order of the source\<close>

record dims =
  d_n :: nat
  d_m :: nat
  d_npar :: nat
  d_nq :: nat

definition infer_dims :: "'a ndarray \<Rightarrow> 'a ndarray \<Rightarrow> 'a ndarray \<Rightarrow> error + dims" where
  \<comment> \<open>``Check x and y'' and the rank check of \<^verbatim>\<open>beta0\<close>\<close>
  "infer_dims x y beta0 =
     ebind (if ndim x = 1 then Inr 1
            else if ndim x = 2 then Inr (shape x ! 0)
            else Inl XRank) (\<lambda>m.
     ebind (if ndim y = 1 then Inr 1
            else if ndim y = 2 then Inr (shape y ! 0)
            else Inl YRank) (\<lambda>nq.
     ebind (if last (shape x) = last (shape y) then Inr (last (shape x))
            else Inl LastDimension) (\<lambda>n.
     ebind (if ndim beta0 = 1 then Inr (asize beta0)
            else Inl Beta0Rank) (\<lambda>npar.
     Inr \<lparr>d_n = n, d_m = m, d_npar = npar, d_nq = nq\<rparr>))))"

definition check_lower :: "('a::ord) ndarray option \<Rightarrow> 'a ndarray \<Rightarrow> error + unit" where
  "check_lower lower beta0 =
     (case lower of
        None \<Rightarrow> Inr ()
      | Some l \<Rightarrow>
          if shape l \<noteq> shape beta0 then Inl LowerShape
          else if any_ge l beta0 then Inl LowerNotLess
          else Inr ())"

definition check_upper :: "('a::ord) ndarray option \<Rightarrow> 'a ndarray \<Rightarrow> error + unit" where
  "check_upper upper beta0 =
     (case upper of
        None \<Rightarrow> Inr ()
      | Some u \<Rightarrow>
          if shape u \<noteq> shape beta0 then Inl UpperShape
          else if any_le u beta0 then Inl UpperNotGreater
          else Inr ())"

definition check_bounds ::
  "('a::ord) ndarray option \<Rightarrow> 'a ndarray option \<Rightarrow> 'a ndarray \<Rightarrow> error + unit" where
  "check_bounds lower upper beta0 =
     ebind (check_lower lower beta0) (\<lambda>_. check_upper upper beta0)"

definition check_same_shape :: "error \<Rightarrow> 'b ndarray option \<Rightarrow> 'a ndarray \<Rightarrow> error + unit" where
  \<comment> \<open>the checks of \<^verbatim>\<open>ifixb\<close>, \<^verbatim>\<open>stpb\<close> and \<^verbatim>\<open>sclb\<close>, which differ in the message\<close>
  "check_same_shape err a beta0 =
     (if a \<noteq> None \<and> shape (the a) \<noteq> shape beta0 then Inl err else Inr ())"

definition check_delta0 ::
  "bool \<Rightarrow> ('a::zero) ndarray option \<Rightarrow> 'a ndarray \<Rightarrow> error + 'a ndarray" where
  \<comment> \<open>returns \<^verbatim>\<open>delta\<close>; a copy of an array is the array\<close>
  "check_delta0 has_d delta0 x =
     (if has_d \<and> delta0 \<noteq> None then
        (if shape (the delta0) \<noteq> shape x then Inl Delta0Shape
         else Inr (the delta0))
      else if \<not> has_d \<and> delta0 = None then Inr (zeros_like x)
      else Inl Delta0Job)"

definition check_xarr ::
  "error \<Rightarrow> 'b ndarray option \<Rightarrow> 'a ndarray \<Rightarrow> nat \<Rightarrow> nat
     \<Rightarrow> error + (nat \<times> 'b ndarray option)" where
  \<comment> \<open>the checks of \<^verbatim>\<open>ifixx\<close>, \<^verbatim>\<open>stpd\<close> and \<^verbatim>\<open>scld\<close>, which differ in the message;
      returns the leading dimension and the array as the driver leaves it\<close>
  "check_xarr err a x m n =
     (case a of
        None \<Rightarrow> Inr (1, None)
      | Some v \<Rightarrow>
          if shape v = shape x then Inr (n, Some v)
          else if shape v = [m] \<and> m > 1 \<and> n \<noteq> m then Inr (1, Some v)
          else if shape v = [n] \<and> m > 1 \<and> n \<noteq> m then Inr (n, Some (np_tile v m))
          else Inl err)"

definition check_ifixx ::
  "int ndarray option \<Rightarrow> 'a ndarray \<Rightarrow> nat \<Rightarrow> nat \<Rightarrow> error + (nat \<times> int ndarray option)" where
  "check_ifixx = check_xarr IfixxShape"

definition check_stpd ::
  "'a ndarray option \<Rightarrow> 'a ndarray \<Rightarrow> nat \<Rightarrow> nat \<Rightarrow> error + (nat \<times> 'a ndarray option)" where
  "check_stpd = check_xarr StpdShape"

definition check_scld ::
  "'a ndarray option \<Rightarrow> 'a ndarray \<Rightarrow> nat \<Rightarrow> nat \<Rightarrow> error + (nat \<times> 'a ndarray option)" where
  "check_scld = check_xarr ScldShape"

definition check_weight ::
  "error \<Rightarrow> error \<Rightarrow> 'a weight option \<Rightarrow> nat \<Rightarrow> nat
     \<Rightarrow> error + (nat \<times> nat \<times> 'a ndarray option)" where
  \<comment> \<open>the checks of \<^verbatim>\<open>we\<close> (with \<open>q = nq\<close>) and of \<^verbatim>\<open>wd\<close> (with \<open>q = m\<close>);
      returns \<open>(ld, ld2, w)\<close>\<close>
  "check_weight shape_err type_err w q n =
     (case w of
        None \<Rightarrow> Inr (1, 1, None)
      | Some (WScalar c) \<Rightarrow> Inr (1, 1, Some (np_full [q] c))
      | Some (WArray a) \<Rightarrow>
          if shape a = [q] then Inr (1, 1, Some a)
          else if shape a = [q, q] then Inr (1, q, Some a)
          else if shape a = [q, n] \<or> (shape a = [n] \<and> q = 1) then Inr (n, 1, Some a)
          else if shape a \<in> set [[q, 1, 1], [q, 1, n], [q, q, 1], [q, q, n]]
          then Inr (shape a ! 2, shape a ! 1, Some a)
          else Inl shape_err
      | Some WOther \<Rightarrow> Inl type_err)"

definition check_we :: "'a weight option \<Rightarrow> nat \<Rightarrow> nat \<Rightarrow> error + (nat \<times> nat \<times> 'a ndarray option)" where
  "check_we = check_weight WeShape WeType"

definition check_wd :: "'a weight option \<Rightarrow> nat \<Rightarrow> nat \<Rightarrow> error + (nat \<times> nat \<times> 'a ndarray option)" where
  "check_wd = check_weight WdShape WdType"

definition check_f :: "'a model_fn \<Rightarrow> 'a ndarray \<Rightarrow> 'a ndarray \<Rightarrow> 'a ndarray \<Rightarrow> error + unit" where
  "check_f f beta0 x y = (if shape (f beta0 x) \<noteq> shape y then Inl FShape else Inr ())"

definition fdummy :: "'a \<Rightarrow> 'a model_fn" where
  \<comment> \<open>\<^verbatim>\<open>lambda beta, x: np.array([np.nan])\<close>\<close>
  "fdummy nanv = (\<lambda>beta x. \<lparr>shape = [1], data = [nanv]\<rparr>)"

definition check_jac ::
  "error \<Rightarrow> error \<Rightarrow> 'a \<Rightarrow> bool \<Rightarrow> 'a model_fn option \<Rightarrow> 'a ndarray \<Rightarrow> 'a ndarray
     \<Rightarrow> nat \<Rightarrow> nat \<Rightarrow> error + 'a model_fn" where
  \<comment> \<open>the checks of \<^verbatim>\<open>fjacb\<close> (with \<open>cnt = n*npar*nq\<close>) and of \<^verbatim>\<open>fjacd\<close>
      (with \<open>cnt = n*m*nq\<close>); \<^verbatim>\<open>shape[-1]\<close> of a rank-0 array raises\<close>
  "check_jac shape_err job_err nanv has_j fjac beta0 x n cnt =
     (if has_j \<and> fjac \<noteq> None then
        (let j0 = (the fjac) beta0 x in
         if shape j0 = [] then Inl IndexError
         else if last (shape j0) \<noteq> n \<or> asize j0 \<noteq> cnt then Inl shape_err
         else Inr (the fjac))
      else if \<not> has_j \<and> fjac = None then Inr (fdummy nanv)
      else Inl job_err)"

definition check_work ::
  "nat \<Rightarrow> nat \<Rightarrow> bool \<Rightarrow> ('a::zero) ndarray option \<Rightarrow> int ndarray option
     \<Rightarrow> error + ('a ndarray \<times> int ndarray)" where
  \<comment> \<open>``Check/allocate work arrays'', after
      \<^verbatim>\<open>lwork, liwork = workspace_dimensions(n, m, npar, nq, is_odr)\<close>\<close>
  "check_work lwork liwork restart work iwork =
     (if \<not> restart \<and> work = None \<and> iwork = None then
        Inr (np_zeros [lwork], np_zeros [liwork])
      else if restart \<and> work \<noteq> None \<and> iwork \<noteq> None then
        (if asize (the work) \<noteq> lwork then Inl WorkLength
         else if asize (the iwork) \<noteq> liwork then Inl IworkLength
         else Inr (the work, the iwork))
      else Inl WorkJob)"

subsection \<open>The driver\<close>

definition odr_prepare ::
  "('a::{zero,ord}) odrpack_ext \<Rightarrow> 'a odr_args \<Rightarrow> error + 'a solver_in" where
  \<comment> \<open>everything \<^verbatim>\<open>odr\<close> does before it calls the solver: the result is the
      argument list of that call\<close>
  "odr_prepare E A =
     (let fl = interpret_job (arg_job A);
          x = arg_x A; y = arg_y A; beta0 = arg_beta0 A in
      ebind (infer_dims x y beta0) (\<lambda>d.
      let n = d_n d; m = d_m d; npar = d_npar d; nq = d_nq d; beta = beta0 in
      ebind (check_bounds (arg_lower A) (arg_upper A) beta0) (\<lambda>_.
      ebind (check_same_shape IfixbShape (arg_ifixb A) beta0) (\<lambda>_.
      ebind (check_same_shape StpbShape (arg_stpb A) beta0) (\<lambda>_.
      ebind (check_same_shape SclbShape (arg_sclb A) beta0) (\<lambda>_.
      ebind (check_delta0 (has_delta0 fl) (arg_delta0 A) x) (\<lambda>delta.
      ebind (check_ifixx (arg_ifixx A) x m n) (\<lambda>(ldifx, ifixx).
      ebind (check_stpd (arg_stpd A) x m n) (\<lambda>(ldstpd, stpd).
      ebind (check_scld (arg_scld A) x m n) (\<lambda>(ldscld, scld).
      ebind (check_we (arg_we A) nq n) (\<lambda>(ldwe, ld2we, we).
      ebind (check_wd (arg_wd A) m n) (\<lambda>(ldwd, ld2wd, wd).
      ebind (check_f (arg_f A) beta0 x y) (\<lambda>_.
      ebind (check_jac FjacbShape FjacbJob (nan E) (has_jac fl) (arg_fjacb A) beta0 x n
               (n * npar * nq)) (\<lambda>fjacb.
      ebind (check_jac FjacdShape FjacdJob (nan E) (has_jac fl) (arg_fjacd A) beta0 x n
               (n * m * nq)) (\<lambda>fjacd.
      let (lwork, liwork) = workspace_dimensions E n m npar nq (is_odr fl) in
      ebind (check_work lwork liwork (is_restart fl) (arg_work A) (arg_iwork A))
        (\<lambda>(work, iwork).
      Inr \<lparr>s_n = n, s_m = m, s_npar = npar, s_nq = nq,
           s_ldwe = ldwe, s_ld2we = ld2we, s_ldwd = ldwd, s_ld2wd = ld2wd,
           s_ldifx = ldifx, s_ldstpd = ldstpd, s_ldscld = ldscld,
           s_f = arg_f A, s_fjacb = fjacb, s_fjacd = fjacd,
           s_beta = beta, s_y = y, s_x = x, s_delta = delta,
           s_we = we, s_wd = wd, s_ifixb = arg_ifixb A, s_ifixx = ifixx,
           s_lower = arg_lower A, s_upper = arg_upper A,
           s_work = work, s_iwork = iwork, s_job = arg_job A,
           s_ndigit = arg_ndigit A, s_taufac = arg_taufac A, s_sstol = arg_sstol A,
           s_partol = arg_partol A, s_maxit = arg_maxit A, s_iprint = arg_iprint A,
           s_errfile = arg_errfile A, s_rptfile = arg_rptfile A\<rparr>))))))))))))))))"

definition interpret_info :: "int \<Rightarrow> string" where
  "interpret_info info =
     (if info = 1 then ''Sum of squares convergence.''
      else if info = 2 then ''Parameter convergence.''
      else if info = 3 then ''Sum of squares and parameter convergence.''
      else if info = 4 then ''Iteration limit reached.''
      else if info \<ge> 5 then
        ''Questionable results or fatal errors detected. See report and error message.''
      else [])"

definition odr_finish ::
  "('a::plus) odrpack_ext \<Rightarrow> 'a solver_in \<Rightarrow> 'a solver_out \<Rightarrow> error + 'a odr_result" where
  \<comment> \<open>everything \<^verbatim>\<open>odr\<close> does after the solver has returned; the four arrays the
      solver wrote are read with their new elements\<close>
  "odr_finish E si out =
     (let n = s_n si; m = s_m si; npar = s_npar si; nq = s_nq si;
          x = s_x si; y = s_y si;
          beta = (s_beta si)\<lparr>data := o_beta out\<rparr>;
          delta = (s_delta si)\<lparr>data := o_delta out\<rparr>;
          work = (s_work si)\<lparr>data := o_work out\<rparr>;
          iwork = (s_iwork si)\<lparr>data := o_iwork out\<rparr>;
          info = o_info out;
          iwork_idx = diwinf E m npar nq;
          work_idx = dwinf E n m npar nq (s_ldwe si) (s_ld2we si)
                       (is_odr (interpret_job (s_job si))) in
      ebind (lookup work_idx ''eps'') (\<lambda>i0_eps.
      ebind (slice0 work i0_eps (i0_eps + asize y)) (\<lambda>eps0.
      ebind (np_reshape eps0 (shape y)) (\<lambda>eps.
      ebind (lookup work_idx ''sd'') (\<lambda>i0_sd.
      ebind (slice0 work i0_sd (i0_sd + asize beta)) (\<lambda>sd_beta.
      ebind (lookup work_idx ''vcv'') (\<lambda>i0_vcv.
      ebind (slice0 work i0_vcv (i0_vcv + (asize beta)\<^sup>2)) (\<lambda>cov0.
      ebind (np_reshape cov0 [asize beta, asize beta]) (\<lambda>cov_beta.
      ebind (ebind (lookup work_idx ''rvar'') (item0 work)) (\<lambda>res_var.
      ebind (ebind (lookup iwork_idx ''nfev'') (item0 iwork)) (\<lambda>nfev.
      ebind (ebind (lookup iwork_idx ''njev'') (item0 iwork)) (\<lambda>njev.
      ebind (ebind (lookup iwork_idx ''niter'') (item0 iwork)) (\<lambda>niter.
      ebind (ebind (lookup iwork_idx ''irank'') (item0 iwork)) (\<lambda>irank.
      ebind (ebind (lookup work_idx ''rcond'') (item0 work)) (\<lambda>rcond.
      ebind (ebind (lookup work_idx ''wss'') (item0 work)) (\<lambda>wss.
      ebind (ebind (lookup work_idx ''wssde'') (item0 work)) (\<lambda>wssde.
      ebind (ebind (lookup work_idx ''wssep'') (item0 work)) (\<lambda>wssep.
      Inr \<lparr>r_beta = beta, r_delta = delta, r_eps = eps,
           r_xplus = np_add x delta, r_yest = np_add y eps,
           r_sd_beta = sd_beta, r_cov_beta = cov_beta, r_res_var = res_var,
           r_info = info, r_stopreason = interpret_info info, r_success = (info < 4),
           r_nfev = nfev, r_njev = njev, r_niter = niter, r_irank = irank,
           r_inv_condnum = rcond, r_sum_square = wss,
           r_sum_square_delta = wssde, r_sum_square_eps = wssep,
           r_iwork = iwork, r_work = work\<rparr>))))))))))))))))))"

definition odr ::
  "('a::{zero,plus,ord}) odrpack_ext \<Rightarrow> 'a odr_args \<Rightarrow> error + 'a odr_result" where
  "odr E A = ebind (odr_prepare E A) (\<lambda>si. odr_finish E si (odr_solver E si))"

definition solver_dims :: "'a solver_in \<Rightarrow> dims" where
  \<comment> \<open>the dimensions in the argument list of the solver\<close>
  "solver_dims si = \<lparr>d_n = s_n si, d_m = s_m si, d_npar = s_npar si, d_nq = s_nq si\<rparr>"

subsection \<open>A small instance\<close>

text \<open>
  An instance on which the model is run: a layout of the two work arrays that keeps the
  fields the driver reads apart (it is not the layout of ODRPACK95, which the driver
  takes from the compiled module), a solver that reports convergence after writing ones
  to \<^verbatim>\<open>delta\<close> and twos to \<^verbatim>\<open>work\<close>, and a call with three observations
  and two parameters.
\<close>

definition ex_dwinf :: "nat \<Rightarrow> nat \<Rightarrow> nat \<Rightarrow> nat \<Rightarrow> nat \<Rightarrow> nat \<Rightarrow> bool \<Rightarrow> (string \<rightharpoonup> nat)" where
  "ex_dwinf n m npar nq ldwe ld2we isodr =
     [''eps'' \<mapsto> 0, ''sd'' \<mapsto> n * nq, ''vcv'' \<mapsto> n * nq + npar,
      ''rvar'' \<mapsto> n * nq + npar + npar * npar,
      ''rcond'' \<mapsto> n * nq + npar + npar * npar + 1,
      ''wss'' \<mapsto> n * nq + npar + npar * npar + 2,
      ''wssde'' \<mapsto> n * nq + npar + npar * npar + 3,
      ''wssep'' \<mapsto> n * nq + npar + npar * npar + 4]"

definition ex_diwinf :: "nat \<Rightarrow> nat \<Rightarrow> nat \<Rightarrow> (string \<rightharpoonup> nat)" where
  "ex_diwinf m npar nq = [''nfev'' \<mapsto> 0, ''njev'' \<mapsto> 1, ''niter'' \<mapsto> 2, ''irank'' \<mapsto> 3]"

definition ex_solver :: "int solver_in \<Rightarrow> int solver_out" where
  "ex_solver si =
     \<lparr>o_info = 1, o_beta = data (s_beta si),
      o_delta = replicate (length (data (s_delta si))) 1,
      o_work = replicate (length (data (s_work si))) 2,
      o_iwork = data (s_iwork si)\<rparr>"

definition ex_ext :: "int odrpack_ext" where
  "ex_ext =
     \<lparr>workspace_dimensions = (\<lambda>n m npar nq isodr.
        (n * nq + npar + npar * npar + 5, 20 + 2 * npar + nq * (npar + m))),
      dwinf = ex_dwinf, diwinf = ex_diwinf, odr_solver = ex_solver, nan = 0\<rparr>"

definition ex_args :: "int odr_args" where
  "ex_args =
     \<lparr>arg_f = (\<lambda>beta x. x),
      arg_beta0 = \<lparr>shape = [2], data = [2, 5]\<rparr>,
      arg_y = \<lparr>shape = [3], data = [10, 20, 30]\<rparr>,
      arg_x = \<lparr>shape = [3], data = [1, 2, 3]\<rparr>,
      arg_we = None, arg_wd = None, arg_fjacb = None, arg_fjacd = None,
      arg_ifixb = None, arg_ifixx = None, arg_delta0 = None,
      arg_lower = None, arg_upper = None, arg_job = 0, arg_iprint = Some 0,
      arg_rptfile = None, arg_errfile = None, arg_ndigit = None, arg_taufac = None,
      arg_sstol = None, arg_partol = None, arg_maxit = None, arg_stpb = None,
      arg_stpd = None, arg_sclb = None, arg_scld = None, arg_work = None,
      arg_iwork = None\<rparr>"

text \<open>
  The result of that call, and the same call on empty arrays: no observation and no
  parameter.
\<close>

definition ex_result :: "int odr_result" where
  "ex_result =
     \<lparr>r_beta = \<lparr>shape = [2], data = [2, 5]\<rparr>,
          r_delta = \<lparr>shape = [3], data = [1, 1, 1]\<rparr>,
          r_eps = \<lparr>shape = [3], data = [2, 2, 2]\<rparr>,
          r_xplus = \<lparr>shape = [3], data = [2, 3, 4]\<rparr>,
          r_yest = \<lparr>shape = [3], data = [12, 22, 32]\<rparr>,
          r_sd_beta = \<lparr>shape = [2], data = [2, 2]\<rparr>,
          r_cov_beta = \<lparr>shape = [2, 2], data = [2, 2, 2, 2]\<rparr>,
          r_res_var = \<lparr>shape = [], data = [2]\<rparr>, r_info = 1,
          r_stopreason = ''Sum of squares convergence.'', r_success = True,
          r_nfev = \<lparr>shape = [], data = [0]\<rparr>,
          r_njev = \<lparr>shape = [], data = [0]\<rparr>,
          r_niter = \<lparr>shape = [], data = [0]\<rparr>,
          r_irank = \<lparr>shape = [], data = [0]\<rparr>,
          r_inv_condnum = \<lparr>shape = [], data = [2]\<rparr>,
          r_sum_square = \<lparr>shape = [], data = [2]\<rparr>,
          r_sum_square_delta = \<lparr>shape = [], data = [2]\<rparr>,
          r_sum_square_eps = \<lparr>shape = [], data = [2]\<rparr>,
          r_iwork = \<lparr>shape = [27], data = replicate 27 0\<rparr>,
          r_work = \<lparr>shape = [14], data = replicate 14 2\<rparr>\<rparr>"

definition empty_args :: "int odr_args" where
  "empty_args =
     ex_args\<lparr>arg_beta0 := \<lparr>shape = [0], data = []\<rparr>,
             arg_y := \<lparr>shape = [0], data = []\<rparr>,
             arg_x := \<lparr>shape = [0], data = []\<rparr>\<rparr>"

section \<open>Properties of the driver\<close>

subsection \<open>Sequencing\<close>

lemma ebind_simps:
  "ebind (Inl e) k = Inl e"
  "ebind (Inr v) k = k v"
  by (simp_all add: ebind_def)

lemma ebind_Inr_iff:
  "ebind r k = Inr z \<longleftrightarrow> (\<exists>v. r = Inr v \<and> k v = Inr z)"
  by (cases r) (simp_all add: ebind_def)

lemma ebind_Inl_iff:
  "ebind r k = Inl e \<longleftrightarrow> r = Inl e \<or> (\<exists>v. r = Inr v \<and> k v = Inl e)"
  by (cases r) (auto simp: ebind_def)

subsection \<open>Decoding the job code\<close>

lemma get_digit_nat:
  assumes "0 \<le> job"
  shows "get_digit job k = int (spec_digit (nat job) k)"
proof -
  obtain c where c: "job = int c"
    using assms nonneg_int_cases by blast
  have "int c div 10 ^ (k - 1) = int (c div 10 ^ (k - 1))"
    by (simp add: zdiv_int)
  then show ?thesis
    by (simp add: c get_digit_def spec_digit_def zmod_int)
qed

lemma get_digit_range: "0 \<le> get_digit j k \<and> get_digit j k \<le> 9"
  by (simp add: get_digit_def)

text \<open>
  Claim C5. For a non-negative job code the four mode flags are the thresholds of the
  decimal digits of the code, counted from the right, the \<open>k\<close>-th digit being
  \<open>(code / 10^(k-1)) mod 10\<close>: digit 1 below 2 is ODR mode, digit 2 above 1 is analytic
  Jacobians, digit 4 above 0 is a caller-supplied initial error in \<open>x\<close>, digit 5 above 0
  is a restart. Every such digit is at most 9. The decoding is a total function of the
  integer: it has no error result, and on any integer \<open>j\<close>, negative ones included, each
  extracted digit lies between 0 and 9.
\<close>

theorem job_decoding:
  assumes "0 \<le> job"
  shows "interpret_job job =
           \<lparr>is_odr = spec_digit (nat job) 1 < 2,
            has_jac = spec_digit (nat job) 2 > 1,
            has_delta0 = spec_digit (nat job) 4 > 0,
            is_restart = spec_digit (nat job) 5 > 0\<rparr>
         \<and> spec_digit (nat job) k \<le> 9
         \<and> 0 \<le> get_digit j k \<and> get_digit j k \<le> 9"
proof -
  have "get_digit job 1 < 2 \<longleftrightarrow> spec_digit (nat job) 1 < 2"
       "get_digit job 2 > 1 \<longleftrightarrow> spec_digit (nat job) 2 > 1"
       "get_digit job 4 > 0 \<longleftrightarrow> spec_digit (nat job) 4 > 0"
       "get_digit job 5 > 0 \<longleftrightarrow> spec_digit (nat job) 5 > 0"
    using assms by (simp_all add: get_digit_nat)
  moreover have "spec_digit (nat job) k \<le> 9"
    by (simp add: spec_digit_def)
  ultimately show ?thesis
    using get_digit_range [of j k] by (simp add: interpret_job_def)
qed

theorem job_decoding_witness:
  "(0::int) \<le> 1020 \<and>
   interpret_job 1020 = \<lparr>is_odr = True, has_jac = True, has_delta0 = True, is_restart = False\<rparr>"
  using job_decoding [of 1020 1 0] by (simp add: spec_digit_def)

subsection \<open>Running the instance\<close>

lemmas prepare_defs =
  odr_prepare_def Let_def ebind_def infer_dims_def
  ndim_def asize_def check_bounds_def check_lower_def check_upper_def
  check_same_shape_def check_delta0_def interpret_job_def get_digit_def
  check_ifixx_def check_stpd_def check_scld_def check_xarr_def check_we_def check_wd_def
  check_weight_def check_f_def check_jac_def check_work_def zeros_like_def np_zeros_def

lemmas finish_defs =
  odr_finish_def lookup_def slice0_def item0_def np_reshape_def np_add_def
  interpret_info_def ex_dwinf_def ex_diwinf_def ex_solver_def

lemma ex_prepare:
  "map_sum id (\<lambda>si. (solver_dims si, s_delta si)) (odr_prepare ex_ext ex_args)
   = Inr (\<lparr>d_n = 3, d_m = 1, d_npar = 2, d_nq = 1\<rparr>, \<lparr>shape = [3], data = [0, 0, 0]\<rparr>)"
  by (simp add: prepare_defs ex_ext_def ex_args_def solver_dims_def eval_nat_numeral)

lemma ex_odr: "odr ex_ext ex_args = Inr ex_result"
  by (simp add: odr_def prepare_defs finish_defs ex_ext_def ex_args_def ex_result_def
      eval_nat_numeral)

lemma empty_odr: "isl (odr ex_ext empty_args) = False"
  by (simp add: odr_def prepare_defs finish_defs ex_ext_def ex_args_def empty_args_def
      eval_nat_numeral)

subsection \<open>The call before and after the solver\<close>

lemma odr_prepare_Inr:
  assumes "odr_prepare E A = Inr si"
  shows "infer_dims (arg_x A) (arg_y A) (arg_beta0 A)
           = Inr \<lparr>d_n = s_n si, d_m = s_m si, d_npar = s_npar si, d_nq = s_nq si\<rparr>"
    and "check_bounds (arg_lower A) (arg_upper A) (arg_beta0 A) = Inr ()"
    and "check_delta0 (has_delta0 (interpret_job (arg_job A))) (arg_delta0 A) (arg_x A)
           = Inr (s_delta si)"
    and "check_ifixx (arg_ifixx A) (arg_x A) (s_m si) (s_n si) = Inr (s_ldifx si, s_ifixx si)"
    and "check_we (arg_we A) (s_nq si) (s_n si) = Inr (s_ldwe si, s_ld2we si, s_we si)"
    and "check_wd (arg_wd A) (s_m si) (s_n si) = Inr (s_ldwd si, s_ld2wd si, s_wd si)"
    and "check_f (arg_f A) (arg_beta0 A) (arg_x A) (arg_y A) = Inr ()"
    and "check_work
           (fst (workspace_dimensions E (s_n si) (s_m si) (s_npar si) (s_nq si)
                  (is_odr (interpret_job (arg_job A)))))
           (snd (workspace_dimensions E (s_n si) (s_m si) (s_npar si) (s_nq si)
                  (is_odr (interpret_job (arg_job A)))))
           (is_restart (interpret_job (arg_job A))) (arg_work A) (arg_iwork A)
           = Inr (s_work si, s_iwork si)"
    and "s_x si = arg_x A" and "s_y si = arg_y A" and "s_beta si = arg_beta0 A"
    and "s_job si = arg_job A"
  using assms
  by (auto simp: odr_prepare_def Let_def ebind_Inr_iff case_prod_beta)

lemma odr_Inr:
  "odr E A = Inr r \<longleftrightarrow>
     (\<exists>si. odr_prepare E A = Inr si \<and> odr_finish E si (odr_solver E si) = Inr r)"
  by (simp add: odr_def ebind_Inr_iff)

lemma odr_prepare_Inl: "odr_prepare E A = Inl e \<Longrightarrow> odr E A = Inl e"
  by (simp add: odr_def ebind_simps)

lemma infer_dims_Inl:
  "infer_dims (arg_x A) (arg_y A) (arg_beta0 A) = Inl e \<Longrightarrow> odr_prepare E A = Inl e"
  by (simp add: odr_prepare_def Let_def ebind_simps)

lemma check_bounds_Inl:
  "infer_dims (arg_x A) (arg_y A) (arg_beta0 A) = Inr d \<Longrightarrow>
   check_bounds (arg_lower A) (arg_upper A) (arg_beta0 A) = Inl e \<Longrightarrow>
   odr_prepare E A = Inl e"
  by (simp add: odr_prepare_def Let_def ebind_simps)

lemma infer_dims_fails_iff:
  "(\<exists>e. infer_dims x y beta0 = Inl e) \<longleftrightarrow>
     (ndim x \<noteq> 1 \<and> ndim x \<noteq> 2) \<or> (ndim y \<noteq> 1 \<and> ndim y \<noteq> 2)
     \<or> last (shape x) \<noteq> last (shape y) \<or> ndim beta0 \<noteq> 1"
  by (auto simp: infer_dims_def ebind_def)

lemma infer_dims_kind:
  "infer_dims x y beta0 = Inl e \<Longrightarrow> kind_of e = ShapeMismatch"
  by (auto simp: infer_dims_def ebind_def split: if_splits)

lemma infer_dims_value:
  "infer_dims x y beta0 = Inr d \<Longrightarrow>
     d_m d = (if ndim x = 1 then 1 else shape x ! 0) \<and>
     d_nq d = (if ndim y = 1 then 1 else shape y ! 0) \<and>
     d_n d = last (shape x) \<and> d_n d = last (shape y) \<and>
     d_npar d = shape beta0 ! 0 \<and> d_npar d = asize beta0"
  by (auto simp: infer_dims_def ebind_def ndim_def asize_def length_Suc_conv split: if_splits)

lemma later_checks_no_dim_error:
  "check_bounds lo up b = Inl e \<Longrightarrow> \<not> dim_error e"
  "check_same_shape IfixbShape ia b = Inl e \<Longrightarrow> \<not> dim_error e"
  "check_same_shape StpbShape sa b = Inl e \<Longrightarrow> \<not> dim_error e"
  "check_same_shape SclbShape sa b = Inl e \<Longrightarrow> \<not> dim_error e"
  "check_delta0 hdl d0 x = Inl e \<Longrightarrow> \<not> dim_error e"
  "check_ifixx iv x m n = Inl e \<Longrightarrow> \<not> dim_error e"
  "check_stpd sv x m n = Inl e \<Longrightarrow> \<not> dim_error e"
  "check_scld sv x m n = Inl e \<Longrightarrow> \<not> dim_error e"
  "check_we w q n = Inl e \<Longrightarrow> \<not> dim_error e"
  "check_wd w q n = Inl e \<Longrightarrow> \<not> dim_error e"
  "check_f f b x y = Inl e \<Longrightarrow> \<not> dim_error e"
  "check_jac FjacbShape FjacbJob nv hj fj b x n c = Inl e \<Longrightarrow> \<not> dim_error e"
  "check_jac FjacdShape FjacdJob nv hj fj b x n c = Inl e \<Longrightarrow> \<not> dim_error e"
  "check_work lw liw rs wk iwk = Inl e \<Longrightarrow> \<not> dim_error e"
  by (auto simp: dim_error_def check_bounds_def check_lower_def check_upper_def ebind_def
      check_same_shape_def check_delta0_def check_ifixx_def check_stpd_def check_scld_def
      check_xarr_def check_we_def check_wd_def check_weight_def check_f_def check_jac_def
      check_work_def Let_def
      split: option.splits if_splits weight.splits sum.splits)

lemma odr_prepare_dim_error:
  assumes "odr_prepare E A = Inl e" and "dim_error e"
  shows "infer_dims (arg_x A) (arg_y A) (arg_beta0 A) = Inl e"
proof (cases "infer_dims (arg_x A) (arg_y A) (arg_beta0 A)")
  case (Inl e')
  then show ?thesis
    using assms(1) by (simp add: odr_prepare_def Let_def ebind_simps)
next
  case (Inr d)
  have "\<not> dim_error e"
    using assms(1) Inr
    by (auto simp: odr_prepare_def Let_def ebind_simps ebind_Inl_iff case_prod_beta
        dest: later_checks_no_dim_error)
  then show ?thesis
    using assms(2) by simp
qed

lemma finish_steps_no_dim_error:
  "lookup d k = Inl e \<Longrightarrow> \<not> dim_error e"
  "slice0 a i j = Inl e \<Longrightarrow> \<not> dim_error e"
  "item0 a i = Inl e \<Longrightarrow> \<not> dim_error e"
  "np_reshape a s = Inl e \<Longrightarrow> \<not> dim_error e"
  by (auto simp: dim_error_def lookup_def slice0_def item0_def np_reshape_def Let_def
      split: option.splits list.splits if_splits)

lemma odr_finish_dim_error:
  "odr_finish E si out = Inl e \<Longrightarrow> \<not> dim_error e"
  by (auto simp: odr_finish_def Let_def ebind_Inl_iff dest: finish_steps_no_dim_error)

lemma odr_dim_error:
  assumes "odr E A = Inl e" and "dim_error e"
  shows "infer_dims (arg_x A) (arg_y A) (arg_beta0 A) = Inl e"
  using assms odr_prepare_dim_error [of E A e] odr_finish_dim_error [of E _ _ e]
  by (auto simp: odr_def ebind_Inl_iff)

lemma infer_dims_dim_error:
  "infer_dims x y beta0 = Inl e \<Longrightarrow> dim_error e"
  by (auto simp: infer_dims_def ebind_def dim_error_def split: if_splits)

text \<open>
  Claim C3. Dimension inference fails exactly when \<open>x\<close> has a rank other than 1 or 2,
  or \<open>y\<close> has a rank other than 1 or 2, or the last axes of \<open>x\<close> and \<open>y\<close> differ in
  length, or \<open>beta0\<close> is not of rank 1. Each such failure is a shape mismatch and is the
  error of the whole call; and the whole call fails with one of the four errors of these
  checks exactly under the same condition. Otherwise \<open>m\<close> is 1 for a rank-1 \<open>x\<close> and the
  first axis length of \<open>x\<close> for a rank-2 one, \<open>nq\<close> likewise from \<open>y\<close>, \<open>n\<close> is the common
  last axis length and \<open>npar\<close> the length of \<open>beta0\<close>; these are the dimensions the
  solver is called with.
\<close>

theorem dimension_inference:
  "((\<exists>e. infer_dims (arg_x A) (arg_y A) (arg_beta0 A) = Inl e) \<longleftrightarrow>
      (ndim (arg_x A) \<noteq> 1 \<and> ndim (arg_x A) \<noteq> 2)
      \<or> (ndim (arg_y A) \<noteq> 1 \<and> ndim (arg_y A) \<noteq> 2)
      \<or> last (shape (arg_x A)) \<noteq> last (shape (arg_y A))
      \<or> ndim (arg_beta0 A) \<noteq> 1)
   \<and> (\<forall>e. infer_dims (arg_x A) (arg_y A) (arg_beta0 A) = Inl e \<longrightarrow>
          kind_of e = ShapeMismatch \<and> odr E A = Inl e)
   \<and> (\<forall>d. infer_dims (arg_x A) (arg_y A) (arg_beta0 A) = Inr d \<longrightarrow>
          d_m d = (if ndim (arg_x A) = 1 then 1 else shape (arg_x A) ! 0) \<and>
          d_nq d = (if ndim (arg_y A) = 1 then 1 else shape (arg_y A) ! 0) \<and>
          d_n d = last (shape (arg_x A)) \<and> d_n d = last (shape (arg_y A)) \<and>
          d_npar d = shape (arg_beta0 A) ! 0 \<and> d_npar d = asize (arg_beta0 A))
   \<and> (\<forall>si. odr_prepare E A = Inr si \<longrightarrow>
          infer_dims (arg_x A) (arg_y A) (arg_beta0 A)
            = Inr \<lparr>d_n = s_n si, d_m = s_m si, d_npar = s_npar si, d_nq = s_nq si\<rparr>)
   \<and> ((\<exists>e. odr E A = Inl e \<and> dim_error e) \<longleftrightarrow>
      (ndim (arg_x A) \<noteq> 1 \<and> ndim (arg_x A) \<noteq> 2)
      \<or> (ndim (arg_y A) \<noteq> 1 \<and> ndim (arg_y A) \<noteq> 2)
      \<or> last (shape (arg_x A)) \<noteq> last (shape (arg_y A))
      \<or> ndim (arg_beta0 A) \<noteq> 1)"
  (is "?C1 \<and> ?C2 \<and> ?C3 \<and> ?C4 \<and> ?C5")
proof -
  have c1: ?C1
    using infer_dims_fails_iff [of "arg_x A" "arg_y A" "arg_beta0 A"] .
  have c2: ?C2
    using infer_dims_kind [of "arg_x A" "arg_y A" "arg_beta0 A"]
      infer_dims_Inl [of A _ E] odr_prepare_Inl [of E A]
    by blast
  have c3: ?C3
    using infer_dims_value [of "arg_x A" "arg_y A" "arg_beta0 A"] by blast
  have c4: ?C4
    using odr_prepare_Inr(1) [of E A] by blast
  have "(\<exists>e. odr E A = Inl e \<and> dim_error e)
      \<longleftrightarrow> (\<exists>e. infer_dims (arg_x A) (arg_y A) (arg_beta0 A) = Inl e)"
    using odr_dim_error [of E A] c2
      infer_dims_dim_error [of "arg_x A" "arg_y A" "arg_beta0 A"]
    by blast
  then have c5: ?C5
    using c1 by simp
  show ?thesis
    by (intro conjI c1 c2 c3 c4 c5)
qed

theorem dimension_inference_witness:
  "infer_dims (arg_x ex_args) (arg_y ex_args) (arg_beta0 ex_args)
     = Inr \<lparr>d_n = 3, d_m = 1, d_npar = 2, d_nq = 1\<rparr>
   \<and> \<not> ((ndim (arg_x ex_args) \<noteq> 1 \<and> ndim (arg_x ex_args) \<noteq> 2)
      \<or> (ndim (arg_y ex_args) \<noteq> 1 \<and> ndim (arg_y ex_args) \<noteq> 2)
      \<or> last (shape (arg_x ex_args)) \<noteq> last (shape (arg_y ex_args))
      \<or> ndim (arg_beta0 ex_args) \<noteq> 1)"
proof -
  have h: "infer_dims (arg_x ex_args) (arg_y ex_args) (arg_beta0 ex_args)
     = Inr \<lparr>d_n = 3, d_m = 1, d_npar = 2, d_nq = 1\<rparr>"
    by (simp add: ex_args_def infer_dims_def ebind_def ndim_def asize_def)
  have "\<not> (\<exists>e. infer_dims (arg_x ex_args) (arg_y ex_args) (arg_beta0 ex_args) = Inl e)"
    by (simp add: h)
  then show ?thesis
    using h dimension_inference [of ex_args ex_ext, THEN conjunct1] by blast
qed

text \<open>
  Claim C4. With the delta0 flag of the job code set and an array supplied, the array
  must have the shape of \<open>x\<close> (a shape mismatch otherwise) and is itself the initial
  \<open>delta\<close>; with the flag unset and no array, \<open>delta\<close> is all zeros of the shape of \<open>x\<close>;
  the flag set without an array, or an array without the flag, is an
  inconsistent-job-argument error. So the check passes only when the flag and the
  presence of the array agree, and what it returns is the \<open>delta\<close> handed to the solver.
\<close>

theorem delta0_check:
  "(has_d \<and> delta0 = Some d \<and> shape d = shape x \<longrightarrow>
      check_delta0 has_d delta0 x = Inr d)
   \<and> (has_d \<and> delta0 = Some d \<and> shape d \<noteq> shape x \<longrightarrow>
      check_delta0 has_d delta0 x = Inl Delta0Shape)
   \<and> (\<not> has_d \<and> delta0 = None \<longrightarrow>
      check_delta0 has_d delta0 x = Inr (zeros_like x)
      \<and> shape (zeros_like x :: ('a::zero) ndarray) = shape x
      \<and> data (zeros_like x :: 'a ndarray) = replicate (prod_list (shape x)) 0)
   \<and> (has_d \<and> delta0 = None \<longrightarrow> check_delta0 has_d delta0 x = Inl Delta0Job)
   \<and> (\<not> has_d \<and> delta0 = Some d \<longrightarrow> check_delta0 has_d delta0 x = Inl Delta0Job)
   \<and> kind_of Delta0Shape = ShapeMismatch
   \<and> kind_of Delta0Job = InconsistentJobArgument
   \<and> ((\<exists>r. check_delta0 has_d delta0 x = Inr r) \<longrightarrow> (has_d \<longleftrightarrow> delta0 \<noteq> None))
   \<and> (\<forall>si. odr_prepare E A = Inr si \<longrightarrow>
        check_delta0 (has_delta0 (interpret_job (arg_job A))) (arg_delta0 A) (arg_x A)
          = Inr (s_delta si))"
  using odr_prepare_Inr(3) [of E A]
  by (auto simp: check_delta0_def zeros_like_def np_zeros_def split: if_splits)

theorem delta0_check_witness:
  "check_delta0 True (Some \<lparr>shape = [3], data = [1, 1, 1 :: int]\<rparr>)
       \<lparr>shape = [3], data = [1, 2, 3]\<rparr> = Inr \<lparr>shape = [3], data = [1, 1, 1]\<rparr>
   \<and> check_delta0 True None \<lparr>shape = [3], data = [1, 2, 3 :: int]\<rparr> = Inl Delta0Job"
proof -
  let ?d = "\<lparr>shape = [3], data = [1, 1, 1 :: int]\<rparr>"
  let ?x = "\<lparr>shape = [3], data = [1, 2, 3 :: int]\<rparr>"
  have a: "True \<and> Some ?d = Some ?d \<and> shape ?d = shape ?x \<longrightarrow>
      check_delta0 True (Some ?d) ?x = Inr ?d"
    using delta0_check [of True "Some ?d" ?d ?x ex_ext ex_args, THEN conjunct1] .
  have b: "True \<and> (None :: int ndarray option) = None \<longrightarrow>
      check_delta0 True None ?x = Inl Delta0Job"
    using delta0_check [of True None ?d ?x ex_ext ex_args,
        THEN conjunct2, THEN conjunct2, THEN conjunct2, THEN conjunct1] .
  have a': "check_delta0 True (Some ?d) ?x = Inr ?d"
    using a by simp
  have b': "check_delta0 True None ?x = Inl Delta0Job"
    using b by simp
  show ?thesis
    using a' b' by (rule conjI)
qed

text \<open>
  Claim C2. The work arrays are accepted in two cases only: no restart and neither array
  supplied, where both are allocated with zeros at the lengths computed by
  \<open>workspace_dimensions\<close>; or a restart with both arrays supplied, where a real array of
  another size than the computed \<open>lwork\<close>, or an integer array of another size than
  \<open>liwork\<close>, is a restart size mismatch. Every other combination of the restart flag
  and the two arrays is an inconsistent-job-argument error. In a call that reaches the
  solver the two lengths are those of \<open>workspace_dimensions\<close> at the inferred dimensions.
\<close>

theorem work_check:
  "(\<not> restart \<and> work = None \<and> iwork = None \<longrightarrow>
      check_work lw liw restart work iwork = Inr (np_zeros [lw], np_zeros [liw])
      \<and> shape (np_zeros [lw] :: ('a::zero) ndarray) = [lw]
      \<and> data (np_zeros [lw] :: 'a ndarray) = replicate lw 0
      \<and> shape (np_zeros [liw] :: int ndarray) = [liw]
      \<and> data (np_zeros [liw] :: int ndarray) = replicate liw 0)
   \<and> (restart \<and> work = Some w \<and> iwork = Some iw \<and> asize w \<noteq> lw \<longrightarrow>
      check_work lw liw restart work iwork = Inl WorkLength)
   \<and> (restart \<and> work = Some w \<and> iwork = Some iw \<and> asize w = lw \<and> asize iw \<noteq> liw \<longrightarrow>
      check_work lw liw restart work iwork = Inl IworkLength)
   \<and> (restart \<and> work = Some w \<and> iwork = Some iw \<and> asize w = lw \<and> asize iw = liw \<longrightarrow>
      check_work lw liw restart work iwork = Inr (w, iw))
   \<and> (\<not> (\<not> restart \<and> work = None \<and> iwork = None)
      \<and> \<not> (restart \<and> work \<noteq> None \<and> iwork \<noteq> None) \<longrightarrow>
      check_work lw liw restart work iwork = Inl WorkJob)
   \<and> kind_of WorkJob = InconsistentJobArgument
   \<and> kind_of WorkLength = RestartSizeMismatch
   \<and> kind_of IworkLength = RestartSizeMismatch
   \<and> (\<forall>si. odr_prepare E A = Inr si \<longrightarrow>
        check_work
          (fst (workspace_dimensions E (s_n si) (s_m si) (s_npar si) (s_nq si)
                 (is_odr (interpret_job (arg_job A)))))
          (snd (workspace_dimensions E (s_n si) (s_m si) (s_npar si) (s_nq si)
                 (is_odr (interpret_job (arg_job A)))))
          (is_restart (interpret_job (arg_job A))) (arg_work A) (arg_iwork A)
          = Inr (s_work si, s_iwork si))"
proof -
  have "\<forall>si. odr_prepare E A = Inr si \<longrightarrow>
        check_work
          (fst (workspace_dimensions E (s_n si) (s_m si) (s_npar si) (s_nq si)
                 (is_odr (interpret_job (arg_job A)))))
          (snd (workspace_dimensions E (s_n si) (s_m si) (s_npar si) (s_nq si)
                 (is_odr (interpret_job (arg_job A)))))
          (is_restart (interpret_job (arg_job A))) (arg_work A) (arg_iwork A)
          = Inr (s_work si, s_iwork si)"
    using odr_prepare_Inr(8) [of E A] by blast
  then show ?thesis
    by (simp add: check_work_def np_zeros_def)
qed

theorem work_check_witness:
  "check_work 2 1 True (Some \<lparr>shape = [3], data = [7, 8, 9 :: int]\<rparr>)
       (Some \<lparr>shape = [1], data = [4]\<rparr>) = Inl WorkLength
   \<and> check_work 2 1 True (None :: int ndarray option) None = Inl WorkJob"
proof -
  let ?w = "\<lparr>shape = [3], data = [7, 8, 9 :: int]\<rparr>"
  let ?iw = "\<lparr>shape = [1], data = [4 :: int]\<rparr>"
  have a: "True \<and> Some ?w = Some ?w \<and> Some ?iw = Some ?iw \<and> asize ?w \<noteq> 2 \<longrightarrow>
      check_work 2 1 True (Some ?w) (Some ?iw) = Inl WorkLength"
    using work_check [of True "Some ?w" "Some ?iw" 2 1 ?w ?iw ex_ext ex_args,
        THEN conjunct2, THEN conjunct1] .
  have b: "\<not> (\<not> True \<and> (None :: int ndarray option) = None \<and> (None :: int ndarray option) = None)
      \<and> \<not> (True \<and> (None :: int ndarray option) \<noteq> None \<and> (None :: int ndarray option) \<noteq> None) \<longrightarrow>
      check_work 2 1 True (None :: int ndarray option) None = Inl WorkJob"
    using work_check [of True "None :: int ndarray option" None 2 1 ?w ?iw ex_ext ex_args,
        THEN conjunct2, THEN conjunct2, THEN conjunct2, THEN conjunct2, THEN conjunct1] .
  have a': "check_work 2 1 True (Some ?w) (Some ?iw) = Inl WorkLength"
    using a by (simp add: asize_def)
  have b': "check_work 2 1 True (None :: int ndarray option) None = Inl WorkJob"
    using b by simp
  show ?thesis
    using a' b' by (rule conjI)
qed

lemma any_ge_nth:
  "i < length (data l) \<Longrightarrow> i < length (data b) \<Longrightarrow> data l ! i \<ge> data b ! i \<Longrightarrow> any_ge l b"
  unfolding any_ge_def list_ex_iff
  by (metis (mono_tags, lifting) case_prod_conv length_zip min_less_iff_conj nth_mem nth_zip)

lemma any_le_nth:
  "i < length (data u) \<Longrightarrow> i < length (data b) \<Longrightarrow> data u ! i \<le> data b ! i \<Longrightarrow> any_le u b"
  unfolding any_le_def list_ex_iff
  by (metis (mono_tags, lifting) case_prod_conv length_zip min_less_iff_conj nth_mem nth_zip)

lemma check_lower_cases:
  "check_lower lower beta0 = Inr () \<or> check_lower lower beta0 = Inl LowerShape
   \<or> check_lower lower beta0 = Inl LowerNotLess"
  by (simp add: check_lower_def split: option.splits)

text \<open>
  Claim C6. A supplied \<open>lower\<close> of the shape of \<open>beta0\<close> with an entry greater than or
  equal to the corresponding entry of \<open>beta0\<close> is rejected with the lower-bound error, an
  invalid-bounds error; a supplied \<open>upper\<close> with an entry less than or equal to that of
  \<open>beta0\<close> is rejected with the upper-bound error when \<open>lower\<close> passes its own check, and
  with one of the bound errors in any case. An entry equal to that of \<open>beta0\<close> is such a
  violation (for a value that compares with itself, as every number but NaN does). A
  bound of another shape than \<open>beta0\<close> is rejected too. A call whose bounds are rejected
  never reaches the solver, and the bounds error is the error of the call once the
  dimensions have been inferred.
\<close>

theorem bounds_check:
  "(lower = Some l \<and> shape l = shape beta0
      \<and> i < length (data l) \<and> i < length (data beta0) \<and> data l ! i \<ge> data beta0 ! i \<longrightarrow>
        check_bounds lower upper beta0 = Inl LowerNotLess)
   \<and> (upper = Some u \<and> shape u = shape beta0
      \<and> j < length (data u) \<and> j < length (data beta0) \<and> data u ! j \<le> data beta0 ! j \<longrightarrow>
        (check_lower lower beta0 = Inr () \<longrightarrow>
           check_bounds lower upper beta0 = Inl UpperNotGreater)
        \<and> (\<exists>e. check_bounds lower upper beta0 = Inl e
               \<and> e \<in> {LowerShape, LowerNotLess, UpperNotGreater}))
   \<and> (lower = Some l \<and> shape l = shape beta0
      \<and> i < length (data l) \<and> i < length (data beta0)
      \<and> data l ! i = data beta0 ! i \<and> data beta0 ! i \<le> data beta0 ! i \<longrightarrow>
        check_bounds lower upper beta0 = Inl LowerNotLess)
   \<and> (upper = Some u \<and> shape u = shape beta0
      \<and> j < length (data u) \<and> j < length (data beta0)
      \<and> data u ! j = data beta0 ! j \<and> data beta0 ! j \<le> data beta0 ! j
      \<and> check_lower lower beta0 = Inr () \<longrightarrow>
        check_bounds lower upper beta0 = Inl UpperNotGreater)
   \<and> (lower = Some l \<and> shape l \<noteq> shape beta0 \<longrightarrow>
        check_bounds lower upper beta0 = Inl LowerShape)
   \<and> (upper = Some u \<and> shape u \<noteq> shape beta0 \<longrightarrow>
        (check_lower lower beta0 = Inr () \<longrightarrow>
           check_bounds lower upper beta0 = Inl UpperShape)
        \<and> (\<exists>e. check_bounds lower upper beta0 = Inl e))
   \<and> kind_of LowerNotLess = InvalidBounds \<and> kind_of UpperNotGreater = InvalidBounds
   \<and> (\<forall>e. check_bounds (arg_lower A) (arg_upper A) (arg_beta0 A) = Inl e \<longrightarrow>
        (\<forall>si. odr_prepare E A \<noteq> Inr si) \<and> (\<forall>r. odr E A \<noteq> Inr r)
        \<and> ((\<exists>d. infer_dims (arg_x A) (arg_y A) (arg_beta0 A) = Inr d) \<longrightarrow>
             odr_prepare E A = Inl e \<and> odr E A = Inl e))"
proof -
  have low: "check_bounds lower upper beta0 = Inl LowerNotLess"
    if "lower = Some l" "shape l = shape beta0" "i < length (data l)"
       "i < length (data beta0)" "data l ! i \<ge> data beta0 ! i" for i
    using that any_ge_nth [of i l beta0]
    by (simp add: check_bounds_def check_lower_def ebind_def)
  have up1: "check_bounds lower upper beta0 = Inl UpperNotGreater"
    if "upper = Some u" "shape u = shape beta0" "j < length (data u)"
       "j < length (data beta0)" "data u ! j \<le> data beta0 ! j"
       "check_lower lower beta0 = Inr ()" for j
    using that any_le_nth [of j u beta0]
    by (simp add: check_bounds_def check_upper_def ebind_def)
  have c1: "lower = Some l \<and> shape l = shape beta0
      \<and> i < length (data l) \<and> i < length (data beta0) \<and> data l ! i \<ge> data beta0 ! i \<longrightarrow>
        check_bounds lower upper beta0 = Inl LowerNotLess"
    using low [of i] by blast
  have c2: "upper = Some u \<and> shape u = shape beta0
      \<and> j < length (data u) \<and> j < length (data beta0) \<and> data u ! j \<le> data beta0 ! j \<longrightarrow>
        (check_lower lower beta0 = Inr () \<longrightarrow>
           check_bounds lower upper beta0 = Inl UpperNotGreater)
        \<and> (\<exists>e. check_bounds lower upper beta0 = Inl e
               \<and> e \<in> {LowerShape, LowerNotLess, UpperNotGreater})"
  proof (intro impI, elim conjE)
    assume h: "upper = Some u" "shape u = shape beta0" "j < length (data u)"
       "j < length (data beta0)" "data u ! j \<le> data beta0 ! j"
    have a: "check_lower lower beta0 = Inr () \<longrightarrow>
           check_bounds lower upper beta0 = Inl UpperNotGreater"
      using up1 [of j] h by blast
    have b: "\<exists>e. check_bounds lower upper beta0 = Inl e
               \<and> e \<in> {LowerShape, LowerNotLess, UpperNotGreater}"
      using a check_lower_cases [of lower beta0]
      by (auto simp: check_bounds_def ebind_def)
    show "(check_lower lower beta0 = Inr () \<longrightarrow>
           check_bounds lower upper beta0 = Inl UpperNotGreater)
        \<and> (\<exists>e. check_bounds lower upper beta0 = Inl e
               \<and> e \<in> {LowerShape, LowerNotLess, UpperNotGreater})"
      using a b by (rule conjI)
  qed
  have c3: "lower = Some l \<and> shape l = shape beta0
      \<and> i < length (data l) \<and> i < length (data beta0)
      \<and> data l ! i = data beta0 ! i \<and> data beta0 ! i \<le> data beta0 ! i \<longrightarrow>
        check_bounds lower upper beta0 = Inl LowerNotLess"
    using low [of i] by simp
  have c4: "upper = Some u \<and> shape u = shape beta0
      \<and> j < length (data u) \<and> j < length (data beta0)
      \<and> data u ! j = data beta0 ! j \<and> data beta0 ! j \<le> data beta0 ! j
      \<and> check_lower lower beta0 = Inr () \<longrightarrow>
        check_bounds lower upper beta0 = Inl UpperNotGreater"
    using up1 [of j] by simp
  have c5: "lower = Some l \<and> shape l \<noteq> shape beta0 \<longrightarrow>
        check_bounds lower upper beta0 = Inl LowerShape"
    by (simp add: check_bounds_def check_lower_def ebind_def)
  have c6: "upper = Some u \<and> shape u \<noteq> shape beta0 \<longrightarrow>
        (check_lower lower beta0 = Inr () \<longrightarrow>
           check_bounds lower upper beta0 = Inl UpperShape)
        \<and> (\<exists>e. check_bounds lower upper beta0 = Inl e)"
    using check_lower_cases [of lower beta0]
    by (auto simp: check_bounds_def check_upper_def ebind_def)
  have c7: "kind_of LowerNotLess = InvalidBounds" and c8: "kind_of UpperNotGreater = InvalidBounds"
    by simp_all
  have c9: "\<forall>e. check_bounds (arg_lower A) (arg_upper A) (arg_beta0 A) = Inl e \<longrightarrow>
        (\<forall>si. odr_prepare E A \<noteq> Inr si) \<and> (\<forall>r. odr E A \<noteq> Inr r)
        \<and> ((\<exists>d. infer_dims (arg_x A) (arg_y A) (arg_beta0 A) = Inr d) \<longrightarrow>
             odr_prepare E A = Inl e \<and> odr E A = Inl e)"
    using odr_prepare_Inr(2) [of E A] check_bounds_Inl [of A _ _ E]
      odr_prepare_Inl [of E A]
    by (auto simp: odr_Inr)
  show ?thesis
    by (intro conjI c1 c2 c3 c4 c5 c6 c7 c8 c9)
qed

theorem bounds_check_witness:
  "check_bounds (Some \<lparr>shape = [2], data = [2, 0 :: int]\<rparr>) None \<lparr>shape = [2], data = [2, 5]\<rparr>
     = Inl LowerNotLess"
proof -
  let ?l = "\<lparr>shape = [2], data = [2, 0 :: int]\<rparr>"
  let ?b = "\<lparr>shape = [2], data = [2, 5 :: int]\<rparr>"
  have a: "Some ?l = Some ?l \<and> shape ?l = shape ?b
      \<and> 0 < length (data ?l) \<and> 0 < length (data ?b) \<and> data ?l ! 0 \<ge> data ?b ! 0 \<longrightarrow>
        check_bounds (Some ?l) None ?b = Inl LowerNotLess"
    using bounds_check [of "Some ?l" ?l ?b 0 None ?l 0 ex_args ex_ext, THEN conjunct1] .
  show ?thesis
    using a by simp
qed

subsection \<open>Broadcasting the arrays that follow the shape of x\<close>







subsection \<open>The weights\<close>

lemma check_weight_cases:
  "(w = None \<longrightarrow> check_weight se te w q n = Inr (1, 1, None))
   \<and> (w = Some (WScalar c) \<longrightarrow>
        check_weight se te w q n = Inr (1, 1, Some (np_full [q] c))
        \<and> shape (np_full [q] c) = [q] \<and> data (np_full [q] c) = replicate q c)
   \<and> (w = Some (WArray a) \<and> shape a = [q] \<longrightarrow>
        check_weight se te w q n = Inr (1, 1, Some a))
   \<and> (w = Some (WArray a) \<and> shape a = [q, q] \<longrightarrow>
        check_weight se te w q n = Inr (1, q, Some a))
   \<and> (w = Some (WArray a) \<and> shape a = [q, n] \<and> q \<noteq> n \<longrightarrow>
        check_weight se te w q n = Inr (n, 1, Some a))
   \<and> (w = Some (WArray a) \<and> shape a = [n] \<and> q = 1 \<and> n \<noteq> 1 \<longrightarrow>
        check_weight se te w q n = Inr (n, 1, Some a))
   \<and> (w = Some (WArray a) \<and> shape a \<in> {[q, 1, 1], [q, 1, n], [q, q, 1], [q, q, n]} \<longrightarrow>
        check_weight se te w q n = Inr (shape a ! 2, shape a ! 1, Some a))
   \<and> (w = Some (WArray a)
        \<and> shape a \<notin> {[q], [q, q], [q, n], [q, 1, 1], [q, 1, n], [q, q, 1], [q, q, n]}
        \<and> \<not> (shape a = [n] \<and> q = 1) \<longrightarrow>
        check_weight se te w q n = Inl se)
   \<and> (w = Some WOther \<longrightarrow> check_weight se te w q n = Inl te)"
  by (auto simp: check_weight_def np_full_def)

text \<open>
  Claim C1 as stated fails on its first table entry: an array of shape \<open>(q,)\<close> gets
  \<open>ld = 1\<close>, not \<open>ld = n\<close>. With \<open>nq = 2\<close> and \<open>n = 5\<close> a weight of shape \<open>(2,)\<close> is
  accepted with \<open>ld = 1\<close>, \<open>ld2 = 1\<close>.
\<close>

theorem weight_ld_counterexample:
  "check_we (Some (WArray \<lparr>shape = [2], data = [1, 1 :: int]\<rparr>)) 2 5
     = Inr (1, 1, Some \<lparr>shape = [2], data = [1, 1]\<rparr>)
   \<and> check_we (Some (WArray \<lparr>shape = [2], data = [1, 1 :: int]\<rparr>)) 2 5
     \<noteq> Inr (5, 1, Some \<lparr>shape = [2], data = [1, 1]\<rparr>)"
  by (simp add: check_we_def check_weight_def)

text \<open>
  Claim C1, amended. For \<open>we\<close> (with \<open>q = nq\<close>) and for \<open>wd\<close> (with \<open>q = m\<close>): a scalar
  becomes a vector of length \<open>q\<close> filled with it, with \<open>ld = 1\<close>, \<open>ld2 = 1\<close>; an array is
  matched against the shapes in this order, the first match deciding: \<open>(q,)\<close> gives
  \<open>ld = 1\<close>, \<open>ld2 = 1\<close>; \<open>(q, q)\<close> gives \<open>ld = 1\<close>, \<open>ld2 = q\<close>; \<open>(q, n)\<close>, or \<open>(n,)\<close> when
  \<open>q = 1\<close>, gives \<open>ld = n\<close>, \<open>ld2 = 1\<close>; \<open>(q, 1, 1)\<close>, \<open>(q, 1, n)\<close>, \<open>(q, q, 1)\<close> and
  \<open>(q, q, n)\<close> give \<open>ld\<close> the length of the last axis and \<open>ld2\<close> the length of the middle
  one; an array of any other shape is a shape mismatch. An argument that is neither a
  number nor an array is a type error, and no argument gives \<open>ld = 1\<close>, \<open>ld2 = 1\<close>.
\<close>

theorem weight_check:
  "(w = None \<longrightarrow> check_weight se te w q n = Inr (1, 1, None))
   \<and> (w = Some (WScalar c) \<longrightarrow>
        check_weight se te w q n = Inr (1, 1, Some (np_full [q] c))
        \<and> shape (np_full [q] c) = [q] \<and> data (np_full [q] c) = replicate q c)
   \<and> (w = Some (WArray a) \<and> shape a = [q] \<longrightarrow>
        check_weight se te w q n = Inr (1, 1, Some a))
   \<and> (w = Some (WArray a) \<and> shape a = [q, q] \<longrightarrow>
        check_weight se te w q n = Inr (1, q, Some a))
   \<and> (w = Some (WArray a) \<and> shape a = [q, n] \<and> q \<noteq> n \<longrightarrow>
        check_weight se te w q n = Inr (n, 1, Some a))
   \<and> (w = Some (WArray a) \<and> shape a = [n] \<and> q = 1 \<and> n \<noteq> 1 \<longrightarrow>
        check_weight se te w q n = Inr (n, 1, Some a))
   \<and> (w = Some (WArray a) \<and> shape a \<in> {[q, 1, 1], [q, 1, n], [q, q, 1], [q, q, n]} \<longrightarrow>
        check_weight se te w q n = Inr (shape a ! 2, shape a ! 1, Some a))
   \<and> (w = Some (WArray a)
        \<and> shape a \<notin> {[q], [q, q], [q, n], [q, 1, 1], [q, 1, n], [q, q, 1], [q, q, n]}
        \<and> \<not> (shape a = [n] \<and> q = 1) \<longrightarrow>
        check_weight se te w q n = Inl se)
   \<and> (w = Some WOther \<longrightarrow> check_weight se te w q n = Inl te)
   \<and> check_we w q n = check_weight WeShape WeType w q n
   \<and> check_wd w q n = check_weight WdShape WdType w q n
   \<and> kind_of WeShape = ShapeMismatch \<and> kind_of WdShape = ShapeMismatch"
  using check_weight_cases [of w se te q n c a]
  by (simp add: check_we_def check_wd_def)

theorem weight_check_witness:
  "check_weight WeShape WeType (Some (WArray \<lparr>shape = [2, 5], data = replicate 10 (1 :: int)\<rparr>)) 2 5
     = Inr (5, 1, Some \<lparr>shape = [2, 5], data = replicate 10 1\<rparr>)
   \<and> check_weight WeShape WeType (Some (WArray \<lparr>shape = [5, 2], data = replicate 10 (1 :: int)\<rparr>)) 2 5
     = Inl WeShape"
proof -
  let ?a = "\<lparr>shape = [2, 5], data = replicate 10 (1 :: int)\<rparr>"
  let ?b = "\<lparr>shape = [5, 2], data = replicate 10 (1 :: int)\<rparr>"
  have a: "Some (WArray ?a) = Some (WArray ?a) \<and> shape ?a = [2, 5] \<and> (2 :: nat) \<noteq> 5 \<longrightarrow>
        check_weight WeShape WeType (Some (WArray ?a)) 2 5 = Inr (5, 1, Some ?a)"
    using weight_check [of "Some (WArray ?a)" WeShape WeType 2 5 1 ?a,
        THEN conjunct2, THEN conjunct2, THEN conjunct2, THEN conjunct2, THEN conjunct1] .
  have b: "Some (WArray ?b) = Some (WArray ?b)
        \<and> shape ?b \<notin> {[2], [2, 2], [2, 5], [2, 1, 1], [2, 1, 5], [2, 2, 1], [2, 2, 5]}
        \<and> \<not> (shape ?b = [5] \<and> (2 :: nat) = 1) \<longrightarrow>
        check_weight WeShape WeType (Some (WArray ?b)) 2 5 = Inl WeShape"
    using weight_check [of "Some (WArray ?b)" WeShape WeType 2 5 1 ?b,
        THEN conjunct2, THEN conjunct2, THEN conjunct2, THEN conjunct2, THEN conjunct2,
        THEN conjunct2, THEN conjunct2, THEN conjunct1] .
  have a': "check_weight WeShape WeType (Some (WArray ?a)) 2 5 = Inr (5, 1, Some ?a)"
    using a by simp
  have b': "check_weight WeShape WeType (Some (WArray ?b)) 2 5 = Inl WeShape"
    using b by simp
  show ?thesis
    using a' b' by (rule conjI)
qed

lemma odr_finish_Inr:
  assumes "odr_finish E si out = Inr r"
  shows "r_info r = o_info out"
    and "r_success r \<longleftrightarrow> o_info out < 4"
    and "r_stopreason r = interpret_info (o_info out)"
    and "r_delta r = (s_delta si)\<lparr>data := o_delta out\<rparr>"
    and "r_xplus r = np_add (s_x si) (r_delta r)"
    and "r_yest r = np_add (s_y si) (r_eps r)"
    and "shape (r_eps r) = shape (s_y si)"
  using assms
  by (auto simp: odr_finish_def Let_def ebind_Inr_iff np_reshape_def split: if_splits)

lemma map_sum_ebind:
  "map_sum id g (ebind r k) = ebind r (\<lambda>v. map_sum id g (k v))"
  by (cases r) (simp_all add: ebind_def)

lemma odr_finish_info_irrelevant:
  "map_sum id (\<lambda>_. ()) (odr_finish E si (out\<lparr>o_info := c\<rparr>))
   = map_sum id (\<lambda>_. ()) (odr_finish E si out)"
  by (simp add: odr_finish_def Let_def map_sum_ebind)

lemma Inl_map_sum_iff: "map_sum id g r = Inl e \<longleftrightarrow> r = Inl e"
  by (cases r) simp_all

lemma odr_finish_error_info:
  "odr_finish E si (out\<lparr>o_info := c\<rparr>) = Inl e \<longleftrightarrow> odr_finish E si out = Inl e"
  using odr_finish_info_irrelevant [of E si c out]
  by (metis Inl_map_sum_iff)

lemma interpret_info_table:
  "interpret_info 1 = ''Sum of squares convergence.''"
  "interpret_info 2 = ''Parameter convergence.''"
  "interpret_info 3 = ''Sum of squares and parameter convergence.''"
  "interpret_info 4 = ''Iteration limit reached.''"
  "5 \<le> k \<Longrightarrow> interpret_info k =
     ''Questionable results or fatal errors detected. See report and error message.''"
  by (simp_all add: interpret_info_def)

text \<open>
  Claim C7. In a returned result the success flag is true exactly when the status code
  is below 4, the stop reason is the entry of the fixed table at the status code (1 sum
  of squares convergence, 2 parameter convergence, 3 both, 4 iteration limit reached,
  5 and above questionable results or fatal errors), and the status code is the one the
  solver returned. The status code is never turned into an error: whether decoding the
  result raises, and which error, does not depend on the status code.
\<close>

theorem result_status:
  "(\<forall>r. odr E A = Inr r \<longrightarrow>
      (r_success r \<longleftrightarrow> r_info r < 4)
      \<and> r_stopreason r = interpret_info (r_info r)
      \<and> (\<exists>si. odr_prepare E A = Inr si \<and> r_info r = o_info (odr_solver E si)))
   \<and> interpret_info 1 = ''Sum of squares convergence.''
   \<and> interpret_info 2 = ''Parameter convergence.''
   \<and> interpret_info 3 = ''Sum of squares and parameter convergence.''
   \<and> interpret_info 4 = ''Iteration limit reached.''
   \<and> (5 \<le> k \<longrightarrow> interpret_info k =
        ''Questionable results or fatal errors detected. See report and error message.'')
   \<and> (\<forall>si out c e. odr_finish E si (out\<lparr>o_info := c\<rparr>) = Inl e
                      \<longleftrightarrow> odr_finish E si out = Inl e)"
proof -
  have "(r_success r \<longleftrightarrow> r_info r < 4)
      \<and> r_stopreason r = interpret_info (r_info r)
      \<and> (\<exists>si. odr_prepare E A = Inr si \<and> r_info r = o_info (odr_solver E si))"
    if "odr E A = Inr r" for r
  proof -
    from that obtain si where si: "odr_prepare E A = Inr si"
      and fin: "odr_finish E si (odr_solver E si) = Inr r"
      by (auto simp: odr_Inr)
    show ?thesis
      using si odr_finish_Inr(1,2,3) [OF fin] by auto
  qed
  then show ?thesis
    using interpret_info_table(1,2,3,4) interpret_info_table(5) [of k]
      odr_finish_error_info [of E] by blast
qed

theorem result_status_witness:
  "odr ex_ext ex_args = Inr ex_result
   \<and> r_success ex_result \<and> r_info ex_result = 1
   \<and> r_stopreason ex_result = ''Sum of squares convergence.''"
proof -
  have a: "(r_success ex_result \<longleftrightarrow> r_info ex_result < 4)
      \<and> r_stopreason ex_result = interpret_info (r_info ex_result)"
    using result_status [of ex_ext ex_args 5, THEN conjunct1] ex_odr by blast
  have i: "r_info ex_result = 1"
    by (simp add: ex_result_def)
  have t: "interpret_info 1 = ''Sum of squares convergence.''"
    using result_status [of ex_ext ex_args 5, THEN conjunct2, THEN conjunct1] .
  show ?thesis
    using a i t ex_odr by simp
qed

lemma check_delta0_shape:
  "check_delta0 has_d delta0 x = Inr dl \<Longrightarrow> shape dl = shape x"
  by (auto simp: check_delta0_def zeros_like_def np_zeros_def split: if_splits)

lemma np_add_nth:
  "i < length (data a) \<Longrightarrow> i < length (data b) \<Longrightarrow>
   data (np_add a b) ! i = data a ! i + data b ! i"
  by (simp add: np_add_def)

text \<open>
  Claim C10. In a returned result \<open>xplus\<close> is \<open>x + delta\<close> and \<open>yest\<close> is \<open>y + eps\<close>,
  for the \<open>delta\<close> and \<open>eps\<close> of the same result: the arrays added have the same shape,
  and the sums are taken entry by entry.
\<close>

theorem result_sums:
  assumes "odr E A = Inr r"
  shows "r_xplus r = np_add (arg_x A) (r_delta r)
       \<and> r_yest r = np_add (arg_y A) (r_eps r)
       \<and> shape (r_delta r) = shape (arg_x A)
       \<and> shape (r_eps r) = shape (arg_y A)
       \<and> (\<forall>i. i < length (data (arg_x A)) \<and> i < length (data (r_delta r)) \<longrightarrow>
             data (r_xplus r) ! i = data (arg_x A) ! i + data (r_delta r) ! i)
       \<and> (\<forall>i. i < length (data (arg_y A)) \<and> i < length (data (r_eps r)) \<longrightarrow>
             data (r_yest r) ! i = data (arg_y A) ! i + data (r_eps r) ! i)"
proof -
  from assms obtain si where si: "odr_prepare E A = Inr si"
    and fin: "odr_finish E si (odr_solver E si) = Inr r"
    by (auto simp: odr_Inr)
  have x: "s_x si = arg_x A" and y: "s_y si = arg_y A"
    using odr_prepare_Inr(9,10) [OF si] by simp_all
  have "shape (s_delta si) = shape (arg_x A)"
    using odr_prepare_Inr(3) [OF si] by (rule check_delta0_shape)
  then have sd: "shape (r_delta r) = shape (arg_x A)"
    using odr_finish_Inr(4) [OF fin] by simp
  have xp: "r_xplus r = np_add (arg_x A) (r_delta r)"
    and ye: "r_yest r = np_add (arg_y A) (r_eps r)"
    and se: "shape (r_eps r) = shape (arg_y A)"
    using odr_finish_Inr(5,6,7) [OF fin] x y by simp_all
  show ?thesis
    using xp ye sd se by (simp add: np_add_nth)
qed

theorem result_sums_witness:
  "odr ex_ext ex_args = Inr ex_result
   \<and> r_xplus ex_result = np_add (arg_x ex_args) (r_delta ex_result)
   \<and> r_yest ex_result = np_add (arg_y ex_args) (r_eps ex_result)
   \<and> r_xplus ex_result = \<lparr>shape = [3], data = [2, 3, 4]\<rparr>
   \<and> r_yest ex_result = \<lparr>shape = [3], data = [12, 22, 32]\<rparr>"
proof -
  have a: "r_xplus ex_result = np_add (arg_x ex_args) (r_delta ex_result)"
    using result_sums [OF ex_odr, THEN conjunct1] .
  have b: "r_yest ex_result = np_add (arg_y ex_args) (r_eps ex_result)"
    using result_sums [OF ex_odr, THEN conjunct2, THEN conjunct1] .
  have c: "r_xplus ex_result = \<lparr>shape = [3], data = [2, 3, 4]\<rparr>"
    "r_yest ex_result = \<lparr>shape = [3], data = [12, 22, 32]\<rparr>"
    by (simp_all add: ex_result_def)
  show ?thesis
    by (intro conjI ex_odr a b c)
qed

lemma prod_list_pos_rank1:
  "length s = 1 \<Longrightarrow> 0 < prod_list s \<Longrightarrow> 0 < s ! 0 \<and> 0 < last (s :: nat list)"
  by (cases s) auto

lemma prod_list_pos_rank2:
  "length s = 2 \<Longrightarrow> 0 < prod_list s \<Longrightarrow> 0 < s ! 0 \<and> 0 < last (s :: nat list)"
  by (cases s; cases "tl s") auto

text \<open>
  Claim C9 as stated fails: the driver has no check that a dimension is positive. The
  call on empty arrays passes every check and reaches the solver with \<open>n = 0\<close> and
  \<open>npar = 0\<close>, and the call returns a result.
\<close>

theorem dims_not_positive_counterexample:
  "map_sum id solver_dims (odr_prepare ex_ext empty_args)
     = Inr \<lparr>d_n = 0, d_m = 1, d_npar = 0, d_nq = 1\<rparr>
   \<and> \<not> isl (odr ex_ext empty_args)"
  using empty_odr
  by (simp add: prepare_defs ex_ext_def ex_args_def empty_args_def solver_dims_def)

text \<open>
  Claim C9, amended. In a call that reaches the solver with a non-empty \<open>x\<close>, a
  non-empty \<open>y\<close> and a non-empty \<open>beta0\<close> (each has at least one element), the inferred
  dimensions \<open>n\<close>, \<open>m\<close>, \<open>npar\<close> and \<open>nq\<close> are each at least 1.
\<close>

theorem dims_positive:
  assumes "odr_prepare E A = Inr si"
    and "0 < asize (arg_x A)" and "0 < asize (arg_y A)" and "0 < asize (arg_beta0 A)"
  shows "1 \<le> s_n si \<and> 1 \<le> s_m si \<and> 1 \<le> s_npar si \<and> 1 \<le> s_nq si"
proof -
  let ?d = "\<lparr>d_n = s_n si, d_m = s_m si, d_npar = s_npar si, d_nq = s_nq si\<rparr>"
  have inf: "infer_dims (arg_x A) (arg_y A) (arg_beta0 A) = Inr ?d"
    using odr_prepare_Inr(1) [OF assms(1)] .
  have v: "s_m si = (if ndim (arg_x A) = 1 then 1 else shape (arg_x A) ! 0)"
    "s_nq si = (if ndim (arg_y A) = 1 then 1 else shape (arg_y A) ! 0)"
    "s_n si = last (shape (arg_x A))" "s_npar si = asize (arg_beta0 A)"
    using infer_dims_value [OF inf] by simp_all
  have "\<not> (\<exists>e. infer_dims (arg_x A) (arg_y A) (arg_beta0 A) = Inl e)"
    using inf by simp
  then have rx: "ndim (arg_x A) = 1 \<or> ndim (arg_x A) = 2"
    and ry: "ndim (arg_y A) = 1 \<or> ndim (arg_y A) = 2"
    using infer_dims_fails_iff [of "arg_x A" "arg_y A" "arg_beta0 A"] by auto
  have "0 < s_n si \<and> 0 < s_m si"
    using rx assms(2) v(1,3) prod_list_pos_rank1 [of "shape (arg_x A)"]
      prod_list_pos_rank2 [of "shape (arg_x A)"]
    by (auto simp: ndim_def asize_def)
  moreover have "0 < s_nq si"
    using ry assms(3) v(2) prod_list_pos_rank2 [of "shape (arg_y A)"]
    by (auto simp: ndim_def asize_def)
  moreover have "0 < s_npar si"
    using assms(4) v(4) by simp
  ultimately show ?thesis by simp
qed

theorem dims_positive_witness:
  "\<exists>si. odr_prepare ex_ext ex_args = Inr si
     \<and> 0 < asize (arg_x ex_args) \<and> 0 < asize (arg_y ex_args) \<and> 0 < asize (arg_beta0 ex_args)
     \<and> 1 \<le> s_n si \<and> 1 \<le> s_m si \<and> 1 \<le> s_npar si \<and> 1 \<le> s_nq si"
proof -
  obtain si where si: "odr_prepare ex_ext ex_args = Inr si"
    using ex_prepare by (cases "odr_prepare ex_ext ex_args") auto
  have pos: "0 < asize (arg_x ex_args)" "0 < asize (arg_y ex_args)"
    "0 < asize (arg_beta0 ex_args)"
    by (simp_all add: ex_args_def asize_def)
  show ?thesis
    using si pos dims_positive [OF si pos] by blast
qed

end
